theory Spec2Isabelle
  imports Main
begin

section \<open>JavaScript values\<close>

text \<open>
  The two versions of the \<^verbatim>\<open>App\<close> component exchange GeoJSON with the backend, with
  imported files and with the drawing widget. A value is what \<^verbatim>\<open>JSON.parse\<close> or
  \<^verbatim>\<open>res.json()\<close> can produce, together with \<^verbatim>\<open>undefined\<close>, the result of reading a
  property that is not there. Numbers are integers here: the program never computes
  with a number it receives, it only tests, counts and prints. Objects are association
  lists in insertion order.
\<close>

datatype jsval =
    JUndefined
  | JNull
  | JBool bool
  | JNum int
  | JStr string
  | JArr "jsval list"
  | JObj "(string \<times> jsval) list"

type_synonym obj = "(string \<times> jsval) list"

datatype exn =
    TypeError
  | SyntaxError
  | NetworkError
  | HttpError nat
  | DrawError

text \<open>Truthiness, as \<^verbatim>\<open>if (v)\<close>, \<^verbatim>\<open>a && b\<close> and \<^verbatim>\<open>a || b\<close> test it.\<close>

fun truthy :: "jsval \<Rightarrow> bool" where
  "truthy JUndefined = False"
| "truthy JNull = False"
| "truthy (JBool b) = b"
| "truthy (JNum n) = (n \<noteq> 0)"
| "truthy (JStr s) = (s \<noteq> [])"
| "truthy (JArr xs) = True"
| "truthy (JObj kvs) = True"

definition js_or :: "jsval \<Rightarrow> jsval \<Rightarrow> jsval" where
  "js_or a b = (if truthy a then a else b)"

text \<open>Reading a property of an object: \<^verbatim>\<open>undefined\<close> when the key is not there.\<close>

definition field :: "obj \<Rightarrow> string \<Rightarrow> jsval" where
  "field kvs k = (case map_of kvs k of None \<Rightarrow> JUndefined | Some v \<Rightarrow> v)"

text \<open>
  Reading a property \<^verbatim>\<open>v.k\<close>. On \<^verbatim>\<open>undefined\<close> and \<^verbatim>\<open>null\<close> the read throws a
  TypeError. The program reads the names \<^verbatim>\<open>features\<close>, \<^verbatim>\<open>length\<close> and \<^verbatim>\<open>id\<close> only;
  of these an array and a string have \<^verbatim>\<open>length\<close>, and a number or a boolean has none.
  The length of a string is the number of its characters here.
\<close>

fun get_prop :: "jsval \<Rightarrow> string \<Rightarrow> exn + jsval" where
  "get_prop JUndefined k = Inl TypeError"
| "get_prop JNull k = Inl TypeError"
| "get_prop (JBool b) k = Inr JUndefined"
| "get_prop (JNum n) k = Inr JUndefined"
| "get_prop (JStr s) k = Inr (if k = ''length'' then JNum (int (length s)) else JUndefined)"
| "get_prop (JArr xs) k = Inr (if k = ''length'' then JNum (int (length xs)) else JUndefined)"
| "get_prop (JObj kvs) k = Inr (field kvs k)"

text \<open>
  Writing a property \<^verbatim>\<open>v.k = w\<close>. An existing key keeps its place, a new key goes last.
  The source files are ES modules, hence strict code, where a write to a property of a
  primitive throws a TypeError. An array takes the write as an own property that is
  not an element; nothing in the program reads it back, so the array is returned as
  it is.
\<close>

fun assign :: "obj \<Rightarrow> string \<Rightarrow> jsval \<Rightarrow> obj" where
  "assign [] k v = [(k, v)]"
| "assign (p # ps) k v = (if fst p = k then (k, v) # ps else p # assign ps k v)"

fun set_prop :: "jsval \<Rightarrow> string \<Rightarrow> jsval \<Rightarrow> exn + jsval" where
  "set_prop (JObj kvs) k v = Inr (JObj (assign kvs k v))"
| "set_prop (JArr xs) k v = Inr (JArr xs)"
| "set_prop JUndefined k v = Inl TypeError"
| "set_prop JNull k v = Inl TypeError"
| "set_prop (JBool b) k v = Inl TypeError"
| "set_prop (JNum n) k v = Inl TypeError"
| "set_prop (JStr s) k v = Inl TypeError"

subsection \<open>Numbers and values in template literals\<close>

definition digit :: "nat \<Rightarrow> char" where
  "digit n = ''0123456789'' ! n"

fun dec :: "nat \<Rightarrow> string" where
  "dec n = (if n < 10 then [digit n] else dec (n div 10) @ [digit (n mod 10)])"

declare dec.simps [simp del]

definition join_comma :: "string list \<Rightarrow> string" where
  "join_comma ss = (case ss of [] \<Rightarrow> [] | s # r \<Rightarrow> foldl (\<lambda>a b. a @ '','' @ b) s r)"

text \<open>\<^verbatim>\<open>`${v}`\<close>: the string a template literal prints for a value.\<close>

fun to_string :: "jsval \<Rightarrow> string" where
  "to_string JUndefined = ''undefined''"
| "to_string JNull = ''null''"
| "to_string (JBool b) = (if b then ''true'' else ''false'')"
| "to_string (JNum n) = (if n < 0 then ''-'' @ dec (nat (- n)) else dec (nat n))"
| "to_string (JStr s) = s"
| "to_string (JArr xs) =
     join_comma (map (\<lambda>x. if x = JUndefined \<or> x = JNull then [] else to_string x) xs)"
| "to_string (JObj kvs) = ''[object Object]''"

section \<open>The drawing widget\<close>

text \<open>
  The widget (MapboxDraw) is a library the program calls. Of its state this theory
  keeps the features that \<^verbatim>\<open>getAll\<close> reports, in the order it reports them, and the
  number of identifiers the widget has generated itself. \<^verbatim>\<open>getAll\<close> returns the
  features as a feature collection; \<^verbatim>\<open>delete(id)\<close> removes what is reported under
  that identifier and ignores an unknown one; \<^verbatim>\<open>deleteAll\<close> removes all. What
  \<^verbatim>\<open>add\<close> does with a value is the library's matter and a parameter here: from a
  widget state and a value it either throws or gives the next state.
\<close>

record draw =
  feats :: "obj list"
  hats :: nat

record widget =
  draw_add :: "draw \<Rightarrow> jsval \<Rightarrow> exn + draw"

definition FeatureCollection :: "jsval list \<Rightarrow> jsval" where
  "FeatureCollection fs = JObj [(''type'', JStr ''FeatureCollection''), (''features'', JArr fs)]"

definition draw_getAll :: "draw \<Rightarrow> jsval" where
  "draw_getAll d = FeatureCollection (map JObj (feats d))"

definition draw_delete :: "draw \<Rightarrow> jsval \<Rightarrow> draw" where
  "draw_delete d i = d\<lparr>feats := filter (\<lambda>g. field g ''id'' \<noteq> i) (feats d)\<rparr>"

definition draw_deleteAll :: "draw \<Rightarrow> draw" where
  "draw_deleteAll d = d\<lparr>feats := []\<rparr>"

section \<open>The viewport version of the component\<close>

text \<open>
  The version with the backend: \<^verbatim>\<open>fetchFeaturesForView\<close>, \<^verbatim>\<open>saveToBackend\<close> and
  \<^verbatim>\<open>syncPreview\<close>. The map holds the camera's bounds, carried as the strings a template
  literal prints for them, and the data of its source named \<^verbatim>\<open>features\<close>
  (\<open>None\<close> while \<^verbatim>\<open>getSource("features")\<close> finds no source). \<^verbatim>\<open>setData\<close> keeps the
  object it is handed: what the program writes into that object afterwards shows in
  the source's data.
\<close>

record mapgl =
  west :: string
  south :: string
  east :: string
  north :: string
  source :: "jsval option"

datatype request = GET string | POST string jsval

record response =
  ok :: bool
  http_status :: nat
  json :: "jsval option"

datatype outcome = Rejected | Resolved response

text \<open>
  What the program reads from outside: the outcome of the k-th request it sends
  (\<open>Rejected\<close> is a transport error, \<open>json = None\<close> a body that \<^verbatim>\<open>res.json()\<close>
  rejects), and, for the k-th identifier it synthesizes, the value of \<^verbatim>\<open>Date.now()\<close>
  and of \<^verbatim>\<open>Math.floor(Math.random()*10000)\<close>.
\<close>

record world =
  fetch :: "nat \<Rightarrow> request \<Rightarrow> outcome"
  Date_now :: "nat \<Rightarrow> nat"
  random_suffix :: "nat \<Rightarrow> nat"

text \<open>
  The state both versions share: the status line, the widget behind \<^verbatim>\<open>drawRef\<close>
  and the map behind \<^verbatim>\<open>mapRef\<close>. The viewport version adds the requests sent so far,
  the alerts shown, and the number of identifiers synthesized so far. The \<^verbatim>\<open>map\<close> and
  \<^verbatim>\<open>draw\<close> that the functions below receive are the objects behind the two refs.
  Console output is left out. An asynchronous function is run to its end; what other
  handlers do while it waits is not part of this model.
\<close>

record app =
  status :: string
  drawRef :: "draw option"
  mapRef :: "mapgl option"

record sync_app = app +
  sent :: "request list"
  alerts :: "string list"
  ticks :: nat

definition BACKEND_BASE :: string where
  "BACKEND_BASE = ''http://localhost:8000''"

definition bboxFromMap :: "mapgl \<Rightarrow> string" where
  "bboxFromMap m = west m @ '','' @ south m @ '','' @ east m @ '','' @ north m"

text \<open>The request for the features in the map's view.\<close>

definition features_request :: "mapgl \<Rightarrow> request" where
  "features_request m = GET (BACKEND_BASE @ ''/api/features?bbox='' @ bboxFromMap m)"

definition synth_id :: "world \<Rightarrow> nat \<Rightarrow> string" where
  "synth_id E k = ''f_'' @ dec (Date_now E k) @ ''_'' @ dec (random_suffix E k)"

definition draw_features :: "draw \<Rightarrow> jsval list" where
  "draw_features d = map JObj (feats d)"

text \<open>
  \<^verbatim>\<open>existing.features.forEach(f => { try { draw.delete(f.id); } catch (e) {} })\<close>
\<close>

fun delete_each :: "jsval list \<Rightarrow> draw \<Rightarrow> draw" where
  "delete_each [] d = d"
| "delete_each (f # fs) d =
     delete_each fs (case get_prop f ''id'' of Inl e \<Rightarrow> d | Inr i \<Rightarrow> draw_delete d i)"

text \<open>
  The loop over the response's features. It returns the exception that ended it, if
  any, the array as the loop left it, the widget and the number of identifiers
  synthesized. The right-hand side of the assignment is evaluated before the write
  can throw; a throw of \<^verbatim>\<open>draw.add\<close> is swallowed.
\<close>

fun add_features ::
  "widget \<Rightarrow> world \<Rightarrow> jsval list \<Rightarrow> draw \<Rightarrow> nat \<Rightarrow> exn option \<times> jsval list \<times> draw \<times> nat" where
  "add_features W E [] d k = (None, [], d, k)"
| "add_features W E (f # fs) d k =
     (case get_prop f ''id'' of
        Inl e \<Rightarrow> (Some e, f # fs, d, k)
      | Inr i \<Rightarrow>
          if i = JUndefined \<or> i = JNull then
            (case set_prop f ''id'' (JStr (synth_id E k)) of
               Inl e \<Rightarrow> (Some e, f # fs, d, Suc k)
             | Inr f' \<Rightarrow>
                 (case add_features W E fs
                         (case draw_add W d f' of Inl e \<Rightarrow> d | Inr d' \<Rightarrow> d') (Suc k) of
                    (r, fs', d'', k'') \<Rightarrow> (r, f' # fs', d'', k'')))
          else
            (case add_features W E fs
                    (case draw_add W d f of Inl e \<Rightarrow> d | Inr d' \<Rightarrow> d') k of
               (r, fs', d'', k'') \<Rightarrow> (r, f # fs', d'', k'')))"

text \<open>
  The response after the loop has written into the features of its array: the same
  object, with the array as the loop left it.
\<close>

definition with_features :: "jsval \<Rightarrow> jsval list \<Rightarrow> jsval" where
  "with_features fc xs =
     (case fc of JObj kvs \<Rightarrow> JObj (assign kvs ''features'' (JArr xs)) | _ \<Rightarrow> fc)"

text \<open>
  The block \<^verbatim>\<open>if (draw) { ... }\<close>: clear the widget, then add the response's features.
  It returns the exception that ended it, if any, the response as the block left it,
  and the state.
\<close>

definition sync_draw ::
  "widget \<Rightarrow> world \<Rightarrow> jsval \<Rightarrow> sync_app \<Rightarrow> exn option \<times> jsval \<times> sync_app" where
  "sync_draw W E fc st =
     (case drawRef st of
        None \<Rightarrow> (None, fc, st)
      | Some d \<Rightarrow>
          let d1 = delete_each (draw_features d) d;
              st1 = st\<lparr>drawRef := Some d1\<rparr>
          in (case get_prop fc ''features'' of
                Inl e \<Rightarrow> (Some e, fc, st1)
              | Inr fs \<Rightarrow>
                  (case (if truthy fs then get_prop fs ''length'' else Inr fs) of
                     Inl e \<Rightarrow> (Some e, fc, st1)
                   | Inr c \<Rightarrow>
                       if truthy c then
                         (case fs of
                            JArr xs \<Rightarrow>
                              (case add_features W E xs d1 (ticks st) of
                                 (r, xs', d2, k') \<Rightarrow>
                                   (r, with_features fc xs', st\<lparr>drawRef := Some d2, ticks := k'\<rparr>))
                          | _ \<Rightarrow> (Some TypeError, fc, st1))
                       else (None, fc, st1))))"

text \<open>\<^verbatim>\<open>`Loaded ${fc.features.length} features`\<close>\<close>

definition loaded_status :: "jsval \<Rightarrow> exn + string" where
  "loaded_status fc =
     (case get_prop fc ''features'' of
        Inl e \<Rightarrow> Inl e
      | Inr fs \<Rightarrow>
          (case get_prop fs ''length'' of
             Inl e \<Rightarrow> Inl e
           | Inr n \<Rightarrow> Inr (''Loaded '' @ to_string n @ '' features'')))"

text \<open>
  The \<^verbatim>\<open>try\<close> block of \<^verbatim>\<open>fetchFeaturesForView\<close>. The source is handed the response
  before the widget is synchronised and holds that object, so its data is the
  response as the loop left it.
\<close>

definition fetch_body :: "widget \<Rightarrow> world \<Rightarrow> sync_app \<Rightarrow> exn option \<times> sync_app" where
  "fetch_body W E st =
     (case mapRef st of
        None \<Rightarrow> (Some TypeError, st)
      | Some m \<Rightarrow>
          let req = features_request m;
              st1 = st\<lparr>sent := sent st @ [req]\<rparr>
          in (case fetch E (length (sent st)) req of
                Rejected \<Rightarrow> (Some NetworkError, st1)
              | Resolved res \<Rightarrow>
                  if \<not> ok res then (Some (HttpError (http_status res)), st1)
                  else
                    (case json res of
                       None \<Rightarrow> (Some SyntaxError, st1)
                     | Some fc \<Rightarrow>
                         let st2 = (case source m of
                                      None \<Rightarrow> st1
                                    | Some old \<Rightarrow> st1\<lparr>mapRef := Some (m\<lparr>source := Some fc\<rparr>)\<rparr>)
                         in (case sync_draw W E fc st2 of
                               (r, fc', st3) \<Rightarrow>
                                 let st4 = (case source m of
                                              None \<Rightarrow> st3
                                            | Some old \<Rightarrow>
                                                st3\<lparr>mapRef := Some (m\<lparr>source := Some fc'\<rparr>)\<rparr>)
                                 in (case r of
                                       Some e \<Rightarrow> (Some e, st4)
                                     | None \<Rightarrow>
                                         (case loaded_status fc' of
                                            Inl e \<Rightarrow> (Some e, st4)
                                          | Inr s \<Rightarrow> (None, st4\<lparr>status := s\<rparr>)))))))"

definition fetchFeaturesForView :: "widget \<Rightarrow> world \<Rightarrow> sync_app \<Rightarrow> sync_app" where
  "fetchFeaturesForView W E st =
     (case fetch_body W E (st\<lparr>status := ''Loading features for viewport...''\<rparr>) of
        (None, st') \<Rightarrow> st'
      | (Some e, st') \<Rightarrow> st'\<lparr>status := ''Failed to load viewport features''\<rparr>)"

text \<open>The alert of a failed save holds a dash outside ASCII, given here in UTF-8.\<close>

definition save_failed_alert :: string where
  "save_failed_alert = ''Save failed '' @ [CHR 0xE2, CHR 0x80, CHR 0x94] @ '' check console''"

definition saveToBackend :: "widget \<Rightarrow> world \<Rightarrow> sync_app \<Rightarrow> sync_app" where
  "saveToBackend W E st =
     (case drawRef st of
        None \<Rightarrow> st\<lparr>alerts := alerts st @ [''Draw not ready'']\<rparr>
      | Some d \<Rightarrow>
          let data = js_or (draw_getAll d) (FeatureCollection []);
              req = POST (BACKEND_BASE @ ''/api/save'') data;
              st1 = st\<lparr>status := ''Saving to backend...'', sent := sent st @ [req]\<rparr>
          in (case fetch E (length (sent st)) req of
                Rejected \<Rightarrow>
                  st1\<lparr>status := ''Save failed'', alerts := alerts st1 @ [save_failed_alert]\<rparr>
              | Resolved res \<Rightarrow>
                  if \<not> ok res then
                    st1\<lparr>status := ''Save failed'', alerts := alerts st1 @ [save_failed_alert]\<rparr>
                  else fetchFeaturesForView W E (st1\<lparr>status := ''Saved to backend''\<rparr>)))"

text \<open>
  \<^verbatim>\<open>syncPreview\<close> is registered for \<^verbatim>\<open>draw.create\<close>, \<^verbatim>\<open>draw.update\<close> and
  \<^verbatim>\<open>draw.delete\<close>. It closes over the map and the widget built before it is
  registered, so it never runs without them.
\<close>

definition syncPreview :: "sync_app \<Rightarrow> sync_app" where
  "syncPreview st =
     (case (mapRef st, drawRef st) of
        (Some m, Some d) \<Rightarrow>
          let data = js_or (draw_getAll d) (FeatureCollection [])
          in (case source m of
                None \<Rightarrow> st
              | Some old \<Rightarrow> st\<lparr>mapRef := Some (m\<lparr>source := Some data\<rparr>)\<rparr>)
      | _ \<Rightarrow> st)"

datatype draw_event = DrawCreate | DrawUpdate | DrawDelete

text \<open>
  An edit in the widget: the widget's contents become \<open>d'\<close>, then the widget fires
  the event and the registered handler runs.
\<close>

fun on_draw_event :: "draw_event \<Rightarrow> sync_app \<Rightarrow> sync_app" where
  "on_draw_event DrawCreate st = syncPreview st"
| "on_draw_event DrawUpdate st = syncPreview st"
| "on_draw_event DrawDelete st = syncPreview st"

definition draw_edit :: "draw_event \<Rightarrow> draw \<Rightarrow> sync_app \<Rightarrow> sync_app" where
  "draw_edit ev d' st = on_draw_event ev (st\<lparr>drawRef := Some d'\<rparr>)"

section \<open>The planner version of the component\<close>

text \<open>
  The version with scenarios, export, import and the mock analysis. It has no backend,
  and it never adds a \<^verbatim>\<open>features\<close> source to its map. Beside the shared state it holds the scenarios, the
  analysis result, the tool and layer settings, the files handed to the browser for
  download (name and the value serialised into the file) and the delays it has
  waited for, in milliseconds.
\<close>

record layer =
  visible :: bool
  name :: string
  color :: string

record score_card =
  environmental :: nat
  wellbeing :: nat
  economic :: nat
  hazard :: nat

record recommendation =
  rec_type :: string
  rec_text :: string
  priority :: string
  icon :: string

record analysis =
  scores :: score_card
  recommendations :: "recommendation list"

record planner_app = app +
  scenarios :: "string list"
  currentScenario :: string
  analysisData :: "analysis option"
  isAnalyzing :: bool
  activeTool :: string
  layers :: "(string \<times> layer) list"
  downloads :: "(string \<times> jsval) list"
  timers :: "nat list"

text \<open>The icons are emoji, given here in UTF-8.\<close>

definition mockAnalysisData :: analysis where
  "mockAnalysisData =
     \<lparr>scores = \<lparr>environmental = 72, wellbeing = 68, economic = 61, hazard = 25\<rparr>,
      recommendations =
        [\<lparr>rec_type = ''success'', rec_text = ''Good green space distribution'',
          priority = ''low'', icon = [CHR 0xF0, CHR 0x9F, CHR 0x8C, CHR 0xBF]\<rparr>,
         \<lparr>rec_type = ''warning'', rec_text = ''Consider flood drainage in northern zone'',
          priority = ''medium'', icon = [CHR 0xF0, CHR 0x9F, CHR 0x92, CHR 0xA7]\<rparr>,
         \<lparr>rec_type = ''error'', rec_text = ''High heat island effect in commercial area'',
          priority = ''high'',
          icon = [CHR 0xF0, CHR 0x9F, CHR 0x8C, CHR 0xA1, CHR 0xEF, CHR 0xB8, CHR 0x8F]\<rparr>]\<rparr>"

text \<open>
  The handlers of \<^verbatim>\<open>draw.create\<close>, \<^verbatim>\<open>draw.update\<close> and \<^verbatim>\<open>draw.delete\<close> of this
  version: each reports the number of features the widget holds.
\<close>

definition planner_on_draw :: "draw_event \<Rightarrow> planner_app \<Rightarrow> planner_app" where
  "planner_on_draw ev st =
     (case drawRef st of
        None \<Rightarrow> st
      | Some d \<Rightarrow>
          (case ev of
             DrawCreate \<Rightarrow>
               st\<lparr>status := ''Drawn '' @ dec (length (draw_features d)) @ '' objects''\<rparr>
           | DrawUpdate \<Rightarrow>
               st\<lparr>status := ''Updated '' @ dec (length (draw_features d)) @ '' objects''\<rparr>
           | DrawDelete \<Rightarrow>
               st\<lparr>status := dec (length (draw_features d)) @ '' objects remaining''\<rparr>))"

text \<open>An edit in the planner's widget, as \<open>draw_edit\<close> above.\<close>

definition planner_draw_edit :: "draw_event \<Rightarrow> draw \<Rightarrow> planner_app \<Rightarrow> planner_app" where
  "planner_draw_edit ev d' st = planner_on_draw ev (st\<lparr>drawRef := Some d'\<rparr>)"

definition handleExport :: "planner_app \<Rightarrow> planner_app" where
  "handleExport st =
     (case drawRef st of
        None \<Rightarrow> st
      | Some d \<Rightarrow>
          if length (draw_features d) = 0 then st\<lparr>status := ''No features to export''\<rparr>
          else
            st\<lparr>downloads := downloads st @
                  [(''tenom-plan-'' @ currentScenario st @ ''.geojson'',
                    FeatureCollection (draw_features d))],
               status := ''Exported '' @ dec (length (draw_features d)) @ '' features''\<rparr>)"




text \<open>
  \<^verbatim>\<open>analyzeNow\<close>: the promise of the timer never rejects, so the \<^verbatim>\<open>catch\<close> branch is
  not reached.
\<close>

definition analyzeNow :: "planner_app \<Rightarrow> planner_app" where
  "analyzeNow st =
     (case drawRef st of
        None \<Rightarrow> st
      | Some d \<Rightarrow>
          if length (draw_features d) = 0 then
            st\<lparr>status := ''Draw some features first to analyze''\<rparr>
          else
            let st1 = st\<lparr>isAnalyzing := True, status := ''Analyzing your urban plan...''\<rparr>;
                st2 = st1\<lparr>timers := timers st1 @ [2000]\<rparr>;
                st3 = st2\<lparr>analysisData := Some mockAnalysisData, status := ''Analysis complete!''\<rparr>
            in st3\<lparr>isAnalyzing := False\<rparr>)"

text \<open>\<^verbatim>\<open>createNewScenario\<close>: \<open>answer\<close> is what \<^verbatim>\<open>prompt\<close> returns, \<open>None\<close> on cancel.\<close>

definition createNewScenario :: "string option \<Rightarrow> planner_app \<Rightarrow> planner_app" where
  "createNewScenario answer st =
     (case answer of
        None \<Rightarrow> st
      | Some scenarioName \<Rightarrow>
          if scenarioName \<noteq> [] \<and> scenarioName \<notin> set (scenarios st) then
            st\<lparr>scenarios := scenarios st @ [scenarioName],
               currentScenario := scenarioName,
               drawRef := map_option draw_deleteAll (drawRef st),
               analysisData := None,
               status := ''New scenario: '' @ scenarioName\<rparr>
          else st)"

definition switchScenario :: "string \<Rightarrow> planner_app \<Rightarrow> planner_app" where
  "switchScenario scenario st =
     st\<lparr>currentScenario := scenario,
        analysisData := None,
        drawRef := map_option draw_deleteAll (drawRef st),
        status := ''Switched to '' @ scenario\<rparr>"

section \<open>Notions used to state the properties\<close>

text \<open>A feature lacks an identifier when its \<^verbatim>\<open>id\<close> is \<^verbatim>\<open>undefined\<close> or \<^verbatim>\<open>null\<close>.\<close>

definition lacks_id :: "obj \<Rightarrow> bool" where
  "lacks_id f = (field f ''id'' = JUndefined \<or> field f ''id'' = JNull)"

definition ident :: "obj \<Rightarrow> jsval" where
  "ident f = field f ''id''"

text \<open>
  The response's features with identifiers assigned: a feature that lacks one gets
  the identifier synthesized at its turn, any other feature stays as it is.
\<close>

fun with_ids :: "world \<Rightarrow> nat \<Rightarrow> obj list \<Rightarrow> obj list" where
  "with_ids E k [] = []"
| "with_ids E k (f # fs) =
     (if lacks_id f then assign f ''id'' (JStr (synth_id E k)) # with_ids E (Suc k) fs
      else f # with_ids E k fs)"

text \<open>
  The identifiers that a batch \<open>fs\<close> was given, read off the batch \<open>fs'\<close> as the loop
  left it: those of the features that lacked one.
\<close>

definition assigned_ids :: "obj list \<Rightarrow> obj list \<Rightarrow> jsval list" where
  "assigned_ids fs fs' =
     map (\<lambda>p. ident (snd p)) (filter (\<lambda>p. lacks_id (fst p)) (zip fs fs'))"

text \<open>
  Calling \<^verbatim>\<open>add\<close> on objects one after the other, a call that throws skipped.
\<close>

fun add_swallow :: "widget \<Rightarrow> obj list \<Rightarrow> draw \<Rightarrow> draw" where
  "add_swallow W [] d = d"
| "add_swallow W (g # gs) d =
     add_swallow W gs (case draw_add W d (JObj g) of Inl e \<Rightarrow> d | Inr d' \<Rightarrow> d')"

text \<open>A fetch fails when it is rejected or its response is not ok.\<close>

definition failed_fetch :: "outcome \<Rightarrow> bool" where
  "failed_fetch out = (case out of Rejected \<Rightarrow> True | Resolved res \<Rightarrow> \<not> ok res)"

definition save_request :: "draw \<Rightarrow> request" where
  "save_request d = POST (BACKEND_BASE @ ''/api/save'') (FeatureCollection (map JObj (feats d)))"

section \<open>Example data\<close>

text \<open>
  A widget for the examples, a stand-in for the library: its \<^verbatim>\<open>add\<close> throws on what
  is no object or an object it does not accept, generates an identifier for an object
  whose \<^verbatim>\<open>id\<close> is falsy, puts an object in the place of one reported under the same
  identifier and appends it otherwise.
\<close>

fun upsert :: "obj list \<Rightarrow> obj \<Rightarrow> obj list" where
  "upsert [] f = [f]"
| "upsert (g # gs) f =
     (if field g ''id'' = field f ''id'' then f # gs else g # upsert gs f)"

definition insert_obj :: "(nat \<Rightarrow> string) \<Rightarrow> draw \<Rightarrow> obj \<Rightarrow> draw" where
  "insert_obj hat d f =
     (if truthy (field f ''id'') then d\<lparr>feats := upsert (feats d) f\<rparr>
      else d\<lparr>feats := upsert (feats d) (assign f ''id'' (JStr (hat (hats d)))),
             hats := Suc (hats d)\<rparr>)"

definition list_widget :: "(obj \<Rightarrow> bool) \<Rightarrow> (nat \<Rightarrow> string) \<Rightarrow> widget" where
  "list_widget accepts hat =
     \<lparr>draw_add = (\<lambda>d v. case v of
                            JObj f \<Rightarrow> if \<not> accepts f then Inl DrawError
                                      else Inr (insert_obj hat d f)
                          | _ \<Rightarrow> Inl DrawError)\<rparr>"

text \<open>
  Three features: one with an identifier, one without, and an unlocated one (its
  geometry is \<^verbatim>\<open>null\<close>, which GeoJSON allows). One widget takes every object, the
  other throws on an unlocated feature.
\<close>

definition park :: obj where
  "park = [(''type'', JStr ''Feature''), (''id'', JStr ''park''),
           (''geometry'', JObj [(''type'', JStr ''Point''),
                                (''coordinates'', JArr [JNum 101, JNum 3])])]"

definition road :: obj where
  "road = [(''type'', JStr ''Feature''),
           (''geometry'', JObj [(''type'', JStr ''Point''),
                                (''coordinates'', JArr [JNum 102, JNum 4])])]"

definition lake :: obj where
  "lake = [(''type'', JStr ''Feature''), (''id'', JNull),
           (''geometry'', JObj [(''type'', JStr ''Point''),
                                (''coordinates'', JArr [JNum 103, JNum 5])])]"

definition unlocated :: obj where
  "unlocated = [(''type'', JStr ''Feature''), (''id'', JStr ''u1''), (''geometry'', JNull)]"

definition any_widget :: widget where
  "any_widget = list_widget (\<lambda>f. True) (\<lambda>k. ''h'' @ dec k)"

definition located_widget :: widget where
  "located_widget = list_widget (\<lambda>f. field f ''geometry'' \<noteq> JNull) (\<lambda>k. ''h'' @ dec k)"

definition one_park :: draw where
  "one_park = \<lparr>feats = [park], hats = 0\<rparr>"

definition no_features :: draw where
  "no_features = \<lparr>feats = [], hats = 0\<rparr>"

definition park_and_road :: draw where
  "park_and_road = \<lparr>feats = [park, assign road ''id'' (JStr ''r1'')], hats = 0\<rparr>"

definition city :: mapgl where
  "city = \<lparr>west = ''101'', south = ''3'', east = ''102'', north = ''4'',
           source = Some (FeatureCollection [JObj park])\<rparr>"

text \<open>The planner's map: its style has the raster tiles only, no \<^verbatim>\<open>features\<close> source.\<close>

definition tiles_only :: mapgl where
  "tiles_only = \<lparr>west = ''115'', south = ''5'', east = ''116'', north = ''6'', source = None\<rparr>"

text \<open>
  A world whose every request has the outcome \<open>out\<close>. The clock is a parameter; the
  random suffix is the same at every reading.
\<close>

definition world_of :: "outcome \<Rightarrow> (nat \<Rightarrow> nat) \<Rightarrow> world" where
  "world_of out clock = \<lparr>fetch = (\<lambda>k r. out), Date_now = clock, random_suffix = (\<lambda>k. 4242)\<rparr>"

definition answer_200 :: "jsval \<Rightarrow> outcome" where
  "answer_200 body = Resolved \<lparr>ok = True, http_status = 200, json = Some body\<rparr>"

definition answer_500 :: outcome where
  "answer_500 = Resolved \<lparr>ok = False, http_status = 500, json = None\<rparr>"

definition ticking :: "nat \<Rightarrow> nat" where
  "ticking k = 1700000000000 + k"

definition frozen :: "nat \<Rightarrow> nat" where
  "frozen k = 1700000000000"

definition viewing :: sync_app where
  "viewing = \<lparr>status = ''Ready'', drawRef = Some one_park,
              mapRef = Some city, sent = [], alerts = [], ticks = 0\<rparr>"

definition planning :: "draw \<Rightarrow> planner_app" where
  "planning d = \<lparr>status = ''Ready'', drawRef = Some d, mapRef = Some tiles_only,
                 scenarios = [''Master Plan'', ''Sustainable Vision''],
                 currentScenario = ''Master Plan'', analysisData = None,
                 isAnalyzing = False, activeTool = ''select'', layers = [],
                 downloads = [], timers = []\<rparr>"





section \<open>Auxiliary facts\<close>

lemma delete_each_feats:
  "delete_each (map JObj gs) d =
     d\<lparr>feats := filter (\<lambda>g. field g ''id'' \<notin> (\<lambda>g. field g ''id'') ` set gs) (feats d)\<rparr>"
proof (induction gs arbitrary: d)
  case Nil
  show ?case by simp
next
  case (Cons g gs)
  show ?case by (simp add: Cons.IH draw_delete_def conj_commute)
qed

lemma delete_each_all: "delete_each (draw_features d) d = d\<lparr>feats := []\<rparr>"
  by (simp add: draw_features_def delete_each_feats)

lemma fetch_body_failed:
  assumes "mapRef st = Some m"
    and "failed_fetch (fetch E (length (sent st)) (features_request m))"
  shows "\<exists>e. fetch_body W E st = (Some e, st\<lparr>sent := sent st @ [features_request m]\<rparr>)"
  using assms
  by (auto simp: fetch_body_def failed_fetch_def Let_def split: outcome.splits)

section \<open>Failed fetches\<close>

text \<open>
  C3: when the fetch of the viewport's features is rejected (a transport error) or
  answered with a status that is not a success, \<^verbatim>\<open>fetchFeaturesForView\<close> leaves the
  map's source and the widget as they were and sets the status to the failure
  message. The only other change is the request in the list of requests sent.
\<close>

theorem failed_fetch_keeps_layers:
  assumes "mapRef st = Some m"
    and "failed_fetch (fetch E (length (sent st)) (features_request m))"
  shows "fetchFeaturesForView W E st =
           st\<lparr>status := ''Failed to load viewport features'',
              sent := sent st @ [features_request m]\<rparr>"
proof -
  let ?st = "st\<lparr>status := ''Loading features for viewport...''\<rparr>"
  have "mapRef ?st = Some m"
    using assms(1) by simp
  moreover have "failed_fetch (fetch E (length (sent ?st)) (features_request m))"
    using assms(2) by simp
  ultimately obtain e where
    "fetch_body W E ?st = (Some e, ?st\<lparr>sent := sent ?st @ [features_request m]\<rparr>)"
    using fetch_body_failed by blast
  then show ?thesis by (simp add: fetchFeaturesForView_def)
qed

theorem failed_fetch_keeps_layers_witness:
  "fetchFeaturesForView any_widget (world_of answer_500 ticking) viewing =
     viewing\<lparr>status := ''Failed to load viewport features'', sent := [features_request city]\<rparr>
   \<and> fetchFeaturesForView any_widget (world_of Rejected ticking) viewing =
     viewing\<lparr>status := ''Failed to load viewport features'', sent := [features_request city]\<rparr>"
proof -
  have m: "mapRef viewing = Some city" by (simp add: viewing_def)
  have a: "failed_fetch (fetch (world_of answer_500 ticking) (length (sent viewing)) (features_request city))"
    by (simp add: failed_fetch_def world_of_def answer_500_def)
  have b: "failed_fetch (fetch (world_of Rejected ticking) (length (sent viewing)) (features_request city))"
    by (simp add: failed_fetch_def world_of_def)
  have s: "sent viewing = []" by (simp add: viewing_def)
  show ?thesis
    using failed_fetch_keeps_layers[OF m a, of any_widget] failed_fetch_keeps_layers[OF m b, of any_widget]
    by (simp add: s)
qed

section \<open>Draw events\<close>

lemma planner_on_draw_status_only: "\<exists>s. planner_on_draw ev st = st\<lparr>status := s\<rparr>"
proof (cases "drawRef st")
  case None
  then have "planner_on_draw ev st = st\<lparr>status := status st\<rparr>"
    by (simp add: planner_on_draw_def)
  then show ?thesis ..
next
  case (Some d)
  then show ?thesis
    by (cases ev) (auto simp: planner_on_draw_def)
qed

text \<open>
  C4, as amended: in the viewport version, after a create, update or delete event of
  the widget the data of the map's \<^verbatim>\<open>features\<close> source, where the map has that
  source, is the widget's whole current collection; the handler copies in one
  direction only, the widget stays as the edit left it and nothing else of the state
  changes, so no request is sent. In the planner version the handlers of the three
  events copy nothing to the map: they set the status line to a message with the
  number of features the widget holds, and nothing else changes.
\<close>

theorem draw_event_mirrors_widget:
  "(mapRef st = Some m \<and> source m = Some old \<longrightarrow>
      draw_edit ev d' st =
        st\<lparr>drawRef := Some d', mapRef := Some (m\<lparr>source := Some (draw_getAll d')\<rparr>)\<rparr>)
   \<and> planner_draw_edit ev d' pst =
       pst\<lparr>drawRef := Some d',
           status := (case ev of
                        DrawCreate \<Rightarrow> ''Drawn '' @ dec (length (feats d')) @ '' objects''
                      | DrawUpdate \<Rightarrow> ''Updated '' @ dec (length (feats d')) @ '' objects''
                      | DrawDelete \<Rightarrow> dec (length (feats d')) @ '' objects remaining'')\<rparr>"
proof (intro conjI impI)
  assume "mapRef st = Some m \<and> source m = Some old"
  then show "draw_edit ev d' st =
        st\<lparr>drawRef := Some d', mapRef := Some (m\<lparr>source := Some (draw_getAll d')\<rparr>)\<rparr>"
    by (cases ev)
       (simp_all add: draw_edit_def syncPreview_def js_or_def draw_getAll_def
          FeatureCollection_def)
next
  show "planner_draw_edit ev d' pst =
       pst\<lparr>drawRef := Some d',
           status := (case ev of
                        DrawCreate \<Rightarrow> ''Drawn '' @ dec (length (feats d')) @ '' objects''
                      | DrawUpdate \<Rightarrow> ''Updated '' @ dec (length (feats d')) @ '' objects''
                      | DrawDelete \<Rightarrow> dec (length (feats d')) @ '' objects remaining'')\<rparr>"
    by (cases ev) (simp_all add: planner_draw_edit_def planner_on_draw_def draw_features_def)
qed

theorem draw_event_mirrors_widget_witness:
  "draw_edit DrawCreate park_and_road viewing =
     viewing\<lparr>drawRef := Some park_and_road,
             mapRef := Some (city\<lparr>source := Some (draw_getAll park_and_road)\<rparr>)\<rparr>
   \<and> draw_getAll park_and_road =
       FeatureCollection [JObj park, JObj (assign road ''id'' (JStr ''r1''))]
   \<and> planner_draw_edit DrawCreate park_and_road (planning one_park) =
       (planning one_park)\<lparr>drawRef := Some park_and_road, status := ''Drawn 2 objects''\<rparr>"
proof -
  have m: "mapRef viewing = Some city \<and> source city = Some (FeatureCollection [JObj park])"
    by (simp add: viewing_def city_def)
  have g: "draw_getAll park_and_road =
       FeatureCollection [JObj park, JObj (assign road ''id'' (JStr ''r1''))]"
    by (simp add: draw_getAll_def park_and_road_def)
  have "length (feats park_and_road) = 2"
    by (simp add: park_and_road_def)
  then have n: "dec (length (feats park_and_road)) = ''2''"
    by (simp only: dec.simps[of 2]) (simp add: digit_def)
  from draw_event_mirrors_widget[of viewing city "FeatureCollection [JObj park]" DrawCreate
      park_and_road "planning one_park"]
  have 1: "mapRef viewing = Some city \<and> source city = Some (FeatureCollection [JObj park]) \<longrightarrow>
      draw_edit DrawCreate park_and_road viewing =
        viewing\<lparr>drawRef := Some park_and_road,
                mapRef := Some (city\<lparr>source := Some (draw_getAll park_and_road)\<rparr>)\<rparr>"
    and 2: "planner_draw_edit DrawCreate park_and_road (planning one_park) =
       (planning one_park)\<lparr>drawRef := Some park_and_road,
           status := (case DrawCreate of
                        DrawCreate \<Rightarrow> ''Drawn '' @ dec (length (feats park_and_road)) @ '' objects''
                      | DrawUpdate \<Rightarrow> ''Updated '' @ dec (length (feats park_and_road)) @ '' objects''
                      | DrawDelete \<Rightarrow> dec (length (feats park_and_road)) @ '' objects remaining'')\<rparr>"
    by blast+
  from 1 m have a: "draw_edit DrawCreate park_and_road viewing =
        viewing\<lparr>drawRef := Some park_and_road,
                mapRef := Some (city\<lparr>source := Some (draw_getAll park_and_road)\<rparr>)\<rparr>"
    by blast
  from 2 have b: "planner_draw_edit DrawCreate park_and_road (planning one_park) =
       (planning one_park)\<lparr>drawRef := Some park_and_road, status := ''Drawn 2 objects''\<rparr>"
    by (simp add: n)
  from a g b show ?thesis by (intro conjI)
qed

text \<open>
  C4 as stated fails in the planner version: its map has no \<^verbatim>\<open>features\<close> source,
  and after a create event that leaves one feature in the widget the state differs
  from the one before the edit in the widget and the status line only.
\<close>

theorem planner_draw_event_mirrors_nothing:
  "planner_draw_edit DrawCreate one_park (planning no_features) =
     (planning no_features)\<lparr>drawRef := Some one_park, status := ''Drawn 1 objects''\<rparr>
   \<and> mapRef (planning no_features) = Some tiles_only
   \<and> source tiles_only = None
   \<and> feats one_park = [park]"
proof -
  have "dec (Suc 0) = ''1''"
    by (simp add: dec.simps digit_def)
  then show ?thesis
    by (simp add: planner_draw_edit_def planner_on_draw_def draw_features_def planning_def
        tiles_only_def one_park_def)
qed

section \<open>A response without features\<close>

lemma sync_draw_no_features:
  assumes "get_prop fc ''features'' = Inr fs" and "fs = JUndefined \<or> fs = JNull"
  shows "sync_draw W E fc st =
           (None, fc, st\<lparr>drawRef := map_option (\<lambda>d. d\<lparr>feats := []\<rparr>) (drawRef st)\<rparr>)"
  using assms
  by (cases "drawRef st") (auto simp: sync_draw_def delete_each_all)

text \<open>
  C9: for an ok response whose body lacks the \<^verbatim>\<open>features\<close> array (the member is
  absent, or \<^verbatim>\<open>null\<close>), \<^verbatim>\<open>fetchFeaturesForView\<close> replaces the data of the map's
  source by the body and empties the widget; the status line then throws on the
  missing array, and the function ends with the failure status and the layers
  changed.
\<close>

theorem missing_features_mutates_then_fails:
  assumes "mapRef st = Some m" and "source m = Some old"
    and "fetch E (length (sent st)) (features_request m) = Resolved res"
    and "ok res" and "json res = Some fc"
    and "get_prop fc ''features'' = Inr fs" and "fs = JUndefined \<or> fs = JNull"
  shows "fetchFeaturesForView W E st =
           st\<lparr>status := ''Failed to load viewport features'',
              sent := sent st @ [features_request m],
              mapRef := Some (m\<lparr>source := Some fc\<rparr>),
              drawRef := map_option (\<lambda>d. d\<lparr>feats := []\<rparr>) (drawRef st)\<rparr>"
proof -
  have "loaded_status fc = Inl TypeError"
    using assms(6,7) by (auto simp: loaded_status_def)
  then show ?thesis
    using assms(1-5) sync_draw_no_features[OF assms(6,7)]
    by (simp add: fetchFeaturesForView_def fetch_body_def)
qed

theorem missing_features_mutates_then_fails_witness:
  "fetchFeaturesForView any_widget (world_of (answer_200 (JObj [])) ticking) viewing =
     viewing\<lparr>status := ''Failed to load viewport features'',
             sent := [features_request city],
             mapRef := Some (city\<lparr>source := Some (JObj [])\<rparr>),
             drawRef := Some no_features\<rparr>"
proof -
  have m: "mapRef viewing = Some city" by (simp add: viewing_def)
  have s: "source city = Some (FeatureCollection [JObj park])" by (simp add: city_def)
  have f: "fetch (world_of (answer_200 (JObj [])) ticking) (length (sent viewing)) (features_request city)
             = Resolved \<lparr>ok = True, http_status = 200, json = Some (JObj [])\<rparr>"
    by (simp add: world_of_def answer_200_def)
  have g: "get_prop (JObj []) ''features'' = Inr JUndefined" by (simp add: field_def)
  show ?thesis
    using missing_features_mutates_then_fails[OF m s f _ _ g, of any_widget]
    by (simp add: viewing_def one_park_def no_features_def)
qed

text \<open>
  Where the \<^verbatim>\<open>features\<close> member is a number, the test before the loop is falsy and
  the status line prints the \<^verbatim>\<open>length\<close> it does not find, without a throw.
\<close>

lemma numeric_features_report_loaded:
  assumes "mapRef st = Some m" and "source m = Some old"
    and "fetch E (length (sent st)) (features_request m) = Resolved res"
    and "ok res" and "json res = Some fc"
    and "get_prop fc ''features'' = Inr (JNum n)"
  shows "status (fetchFeaturesForView W E st) = ''Loaded undefined features''"
proof -
  have l: "loaded_status fc = Inr ''Loaded undefined features''"
    using assms(6) by (simp add: loaded_status_def)
  have "\<exists>st'. sync_draw W E fc st0 = (None, fc, st')" for st0
    using assms(6) by (cases "drawRef st0") (auto simp: sync_draw_def)
  then obtain st' where
    "sync_draw W E fc (st\<lparr>status := ''Loading features for viewport...'',
        sent := sent st @ [features_request m], mapRef := Some (m\<lparr>source := Some fc\<rparr>)\<rparr>) = (None, fc, st')"
    by blast
  then show ?thesis
    using assms(1-5) l by (simp add: fetchFeaturesForView_def fetch_body_def)
qed

section \<open>Saving\<close>

lemma sync_draw_sent: "sent (snd (snd (sync_draw W E fc st))) = sent st"
  by (auto simp: sync_draw_def Let_def split: option.splits sum.splits jsval.splits prod.splits)

lemma fetch_body_sent: "\<exists>rest. sent (snd (fetch_body W E st)) = sent st @ rest"
proof (cases "mapRef st")
  case None
  then show ?thesis by (simp add: fetch_body_def)
next
  case (Some m)
  let ?st1 = "st\<lparr>sent := sent st @ [features_request m]\<rparr>"
  show ?thesis
  proof (cases "fetch E (length (sent st)) (features_request m)")
    case Rejected
    with Some show ?thesis by (simp add: fetch_body_def)
  next
    case (Resolved res)
    show ?thesis
    proof (cases "ok res \<and> json res \<noteq> None")
      case False
      with Some Resolved show ?thesis by (auto simp: fetch_body_def Let_def split: option.splits)
    next
      case True
      then obtain fc where fc: "json res = Some fc" and ok: "ok res" by auto
      define st2 where "st2 = (case source m of None \<Rightarrow> ?st1
                                | Some old \<Rightarrow> ?st1\<lparr>mapRef := Some (m\<lparr>source := Some fc\<rparr>)\<rparr>)"
      have s2: "sent st2 = sent st @ [features_request m]"
        by (simp add: st2_def split: option.splits)
      have "sent (snd (snd (sync_draw W E fc st2))) = sent st2" by (rule sync_draw_sent)
      then have "sent (snd (fetch_body W E st)) = sent st2"
        using Some Resolved fc ok
        by (cases "sync_draw W E fc st2")
           (auto simp: fetch_body_def st2_def[symmetric] Let_def split: option.splits sum.splits)
      with s2 show ?thesis by simp
    qed
  qed
qed

lemma fetchFeaturesForView_sent: "\<exists>rest. sent (fetchFeaturesForView W E st) = sent st @ rest"
proof -
  obtain rest where
    "sent (snd (fetch_body W E (st\<lparr>status := ''Loading features for viewport...''\<rparr>))) = sent st @ rest"
    using fetch_body_sent[of W E "st\<lparr>status := ''Loading features for viewport...''\<rparr>"] by auto
  then show ?thesis
    by (cases "fetch_body W E (st\<lparr>status := ''Loading features for viewport...''\<rparr>)")
       (auto simp: fetchFeaturesForView_def split: option.splits)
qed

text \<open>
  C6: \<^verbatim>\<open>saveToBackend\<close> posts the widget's whole current collection to the save
  endpoint, whatever it holds (an empty collection when nothing is drawn), and after
  an ok response it is the viewport sync run on the state with the status
  \<^verbatim>\<open>Saved to backend\<close>.
\<close>

theorem save_sends_whole_collection:
  assumes "drawRef st = Some d"
  shows "(\<exists>rest. sent (saveToBackend W E st) = sent st @ save_request d # rest)
       \<and> (\<forall>res. fetch E (length (sent st)) (save_request d) = Resolved res \<and> ok res \<longrightarrow>
            saveToBackend W E st =
              fetchFeaturesForView W E
                (st\<lparr>sent := sent st @ [save_request d], status := ''Saved to backend''\<rparr>))"
proof -
  let ?req = "save_request d"
  have data: "js_or (draw_getAll d) (FeatureCollection []) = FeatureCollection (map JObj (feats d))"
    by (simp add: js_or_def draw_getAll_def FeatureCollection_def)
  have req: "POST (BACKEND_BASE @ ''/api/save'') (js_or (draw_getAll d) (FeatureCollection [])) = ?req"
    by (simp add: data save_request_def)
  show ?thesis
  proof (cases "fetch E (length (sent st)) ?req")
    case Rejected
    then show ?thesis using assms by (simp add: saveToBackend_def req)
  next
    case (Resolved res)
    show ?thesis
    proof (cases "ok res")
      case False
      with Resolved show ?thesis using assms by (simp add: saveToBackend_def req)
    next
      case True
      let ?st1 = "st\<lparr>sent := sent st @ [?req], status := ''Saved to backend''\<rparr>"
      have eq: "saveToBackend W E st = fetchFeaturesForView W E ?st1"
        using assms Resolved True by (simp add: saveToBackend_def req)
      obtain rest where "sent (fetchFeaturesForView W E ?st1) = sent ?st1 @ rest"
        using fetchFeaturesForView_sent by blast
      with eq Resolved show ?thesis by simp
    qed
  qed
qed

theorem save_sends_whole_collection_witness:
  "(\<exists>rest. sent (saveToBackend any_widget (world_of (answer_200 (FeatureCollection [])) ticking)
                   (viewing\<lparr>drawRef := Some no_features\<rparr>)) =
             save_request no_features # rest)
   \<and> saveToBackend any_widget (world_of (answer_200 (FeatureCollection [])) ticking)
        (viewing\<lparr>drawRef := Some no_features\<rparr>) =
      fetchFeaturesForView any_widget (world_of (answer_200 (FeatureCollection [])) ticking)
        (viewing\<lparr>drawRef := Some no_features, sent := [save_request no_features],
                 status := ''Saved to backend''\<rparr>)
   \<and> save_request no_features = POST ''http://localhost:8000/api/save'' (FeatureCollection [])"
proof -
  let ?E = "world_of (answer_200 (FeatureCollection [])) ticking"
  let ?st = "viewing\<lparr>drawRef := Some no_features\<rparr>"
  have d: "drawRef ?st = Some no_features" by simp
  have s: "sent ?st = []" by (simp add: viewing_def)
  have f: "fetch ?E (length (sent ?st)) (save_request no_features) =
             Resolved \<lparr>ok = True, http_status = 200, json = Some (FeatureCollection [])\<rparr>"
    by (simp add: world_of_def answer_200_def)
  have r: "save_request no_features = POST ''http://localhost:8000/api/save'' (FeatureCollection [])"
    by (simp add: save_request_def no_features_def BACKEND_BASE_def)
  from save_sends_whole_collection[OF d, of any_widget ?E]
  have 1: "\<exists>rest. sent (saveToBackend any_widget ?E ?st) = sent ?st @ save_request no_features # rest"
    and 2: "\<forall>res. fetch ?E (length (sent ?st)) (save_request no_features) = Resolved res \<and> ok res \<longrightarrow>
            saveToBackend any_widget ?E ?st =
              fetchFeaturesForView any_widget ?E
                (?st\<lparr>sent := sent ?st @ [save_request no_features], status := ''Saved to backend''\<rparr>)"
    by blast+
  from 1 have a: "\<exists>rest. sent (saveToBackend any_widget ?E ?st) = save_request no_features # rest"
    by (simp only: s append_Nil)
  from 2 f have "saveToBackend any_widget ?E ?st =
              fetchFeaturesForView any_widget ?E
                (?st\<lparr>sent := sent ?st @ [save_request no_features], status := ''Saved to backend''\<rparr>)"
    by simp
  then have b: "saveToBackend any_widget ?E ?st =
              fetchFeaturesForView any_widget ?E
                (viewing\<lparr>drawRef := Some no_features, sent := [save_request no_features],
                 status := ''Saved to backend''\<rparr>)"
    by (simp only: s append_Nil)
  from a b r show ?thesis by (intro conjI)
qed

section \<open>The planner: analysis, export and scenarios\<close>

lemma length_draw_features [simp]: "length (draw_features d) = length (feats d)"
  by (simp add: draw_features_def)

text \<open>
  C7: with no feature drawn, \<^verbatim>\<open>analyzeNow\<close> sets the status to the message that asks
  for features first and does nothing else: it waits for no timer, and this version
  of the component sends no request at all. With a feature drawn it waits for the
  timer of 2000 ms and then holds the fixed mock payload as the analysis result:
  the four scores 72, 68, 61 and 25 and the three recommendations.
\<close>

theorem analyze_mock:
  assumes "drawRef st = Some d"
  shows "(feats d = [] \<longrightarrow>
            analyzeNow st = st\<lparr>status := ''Draw some features first to analyze''\<rparr>)
       \<and> (feats d \<noteq> [] \<longrightarrow>
            analyzeNow st =
              st\<lparr>isAnalyzing := False, status := ''Analysis complete!'',
                 timers := timers st @ [2000], analysisData := Some mockAnalysisData\<rparr>)
       \<and> scores mockAnalysisData =
            \<lparr>environmental = 72, wellbeing = 68, economic = 61, hazard = 25\<rparr>
       \<and> map rec_text (recommendations mockAnalysisData) =
            [''Good green space distribution'', ''Consider flood drainage in northern zone'',
             ''High heat island effect in commercial area'']"
  using assms by (simp add: analyzeNow_def mockAnalysisData_def)

theorem analyze_mock_witness:
  "analyzeNow (planning no_features) =
     (planning no_features)\<lparr>status := ''Draw some features first to analyze''\<rparr>
   \<and> analyzeNow (planning one_park) =
     (planning one_park)\<lparr>isAnalyzing := False, status := ''Analysis complete!'',
        timers := [2000], analysisData := Some mockAnalysisData\<rparr>"
proof -
  have a: "drawRef (planning no_features) = Some no_features" by (simp add: planning_def)
  have b: "drawRef (planning one_park) = Some one_park" by (simp add: planning_def)
  have t: "timers (planning one_park) = []" by (simp add: planning_def)
  have f: "feats one_park = [park]" "feats no_features = []"
    by (simp_all add: one_park_def no_features_def)
  show ?thesis
    using analyze_mock[OF a] analyze_mock[OF b]
    by (simp add: f t)
qed

text \<open>
  C8: with an empty widget \<^verbatim>\<open>handleExport\<close> sets the status to
  \<^verbatim>\<open>No features to export\<close> and changes nothing else, so no file is handed out;
  with features it hands out one file, named after the current scenario, that holds
  the whole collection, and reports the count.
\<close>

theorem export_denied_when_empty:
  assumes "drawRef st = Some d"
  shows "(feats d = [] \<longrightarrow> handleExport st = st\<lparr>status := ''No features to export''\<rparr>)
       \<and> (feats d \<noteq> [] \<longrightarrow>
            handleExport st =
              st\<lparr>downloads := downloads st @
                    [(''tenom-plan-'' @ currentScenario st @ ''.geojson'',
                      FeatureCollection (map JObj (feats d)))],
                 status := ''Exported '' @ dec (length (feats d)) @ '' features''\<rparr>)"
  using assms by (simp add: handleExport_def draw_features_def)

theorem export_denied_when_empty_witness:
  "handleExport (planning no_features) = (planning no_features)\<lparr>status := ''No features to export''\<rparr>
   \<and> handleExport (planning one_park) =
       (planning one_park)\<lparr>downloads := [(''tenom-plan-Master Plan.geojson'', FeatureCollection [JObj park])],
          status := ''Exported 1 features''\<rparr>"
proof -
  have a: "drawRef (planning no_features) = Some no_features" by (simp add: planning_def)
  have b: "drawRef (planning one_park) = Some one_park" by (simp add: planning_def)
  have t: "downloads (planning one_park) = []" "currentScenario (planning one_park) = ''Master Plan''"
    by (simp_all add: planning_def)
  have d: "dec (Suc 0) = ''1''" by (simp add: dec.simps digit_def)
  have f: "feats one_park = [park]" "feats no_features = []"
    by (simp_all add: one_park_def no_features_def)
  show ?thesis
    using export_denied_when_empty[OF a] export_denied_when_empty[OF b]
    by (simp add: f t d)
qed

text \<open>
  C10: creating a scenario under a new, non-empty name and switching to a scenario
  both empty the widget and drop the analysis result; no file is handed out and
  nothing else is kept of the features. A cancelled prompt or a name that exists
  already changes nothing.
\<close>

theorem scenario_change_discards:
  "(answer = Some n \<and> n \<noteq> [] \<and> n \<notin> set (scenarios st) \<longrightarrow>
      createNewScenario answer st =
        st\<lparr>scenarios := scenarios st @ [n], currentScenario := n,
           drawRef := map_option (\<lambda>d. d\<lparr>feats := []\<rparr>) (drawRef st),
           analysisData := None, status := ''New scenario: '' @ n\<rparr>)
   \<and> ((answer = None \<or> (\<exists>n. answer = Some n \<and> n \<in> set (scenarios st))) \<longrightarrow>
      createNewScenario answer st = st)
   \<and> switchScenario s st =
        st\<lparr>currentScenario := s, analysisData := None,
           drawRef := map_option (\<lambda>d. d\<lparr>feats := []\<rparr>) (drawRef st),
           status := ''Switched to '' @ s\<rparr>"
  by (cases "drawRef st")
     (auto simp: createNewScenario_def switchScenario_def draw_deleteAll_def)

theorem scenario_change_discards_witness:
  "createNewScenario (Some ''Plan B'') (planning one_park) =
     (planning one_park)\<lparr>scenarios := [''Master Plan'', ''Sustainable Vision'', ''Plan B''],
        currentScenario := ''Plan B'', drawRef := Some no_features,
        analysisData := None, status := ''New scenario: Plan B''\<rparr>
   \<and> createNewScenario (Some ''Master Plan'') (planning one_park) = planning one_park
   \<and> createNewScenario None (planning one_park) = planning one_park
   \<and> switchScenario ''Sustainable Vision'' (planning one_park) =
       (planning one_park)\<lparr>currentScenario := ''Sustainable Vision'', analysisData := None,
          drawRef := Some no_features, status := ''Switched to Sustainable Vision''\<rparr>"
proof -
  have s: "scenarios (planning one_park) = [''Master Plan'', ''Sustainable Vision'']"
    and d: "drawRef (planning one_park) = Some one_park"
    by (simp_all add: planning_def)
  have e: "one_park\<lparr>feats := []\<rparr> = no_features" by (simp add: one_park_def no_features_def)
  show ?thesis
    using scenario_change_discards[of "Some ''Plan B''" "''Plan B''" "planning one_park" "''Sustainable Vision''"]
      scenario_change_discards[of "Some ''Master Plan''" "''Master Plan''" "planning one_park" "''Sustainable Vision''"]
      scenario_change_discards[of None "''x''" "planning one_park" "''Sustainable Vision''"]
    by (simp add: s d e)
qed

section \<open>Decimal numerals and synthesized identifiers\<close>

lemma digit_inj: "n < 10 \<Longrightarrow> m < 10 \<Longrightarrow> digit n = digit m \<Longrightarrow> n = m"
  unfolding digit_def
  by (simp add: less_Suc_eq numeral_eq_Suc, elim disjE; simp)

lemma digit_not_us: "n < 10 \<Longrightarrow> digit n \<noteq> CHR ''_''" "n < 10 \<Longrightarrow> CHR ''_'' \<noteq> digit n"
  unfolding digit_def
  by (simp add: less_Suc_eq numeral_eq_Suc, elim disjE; simp)+

lemma dec_not_Nil: "dec n \<noteq> []" "[] \<noteq> dec n"
  by (subst dec.simps, simp)+

lemma dec_inj: "dec n = dec m \<Longrightarrow> n = m"
proof (induction n arbitrary: m rule: dec.induct)
  case (1 n)
  show ?case
  proof (cases "n < 10")
    case True
    then have dn: "dec n = [digit n]" by (subst dec.simps) simp
    show ?thesis
    proof (cases "m < 10")
      case m: True
      then have "dec m = [digit m]" by (subst dec.simps) simp
      with dn "1.prems" True m show ?thesis by (auto dest: digit_inj)
    next
      case False
      then have "dec m = dec (m div 10) @ [digit (m mod 10)]" by (subst dec.simps) simp
      with dn "1.prems" show ?thesis by (simp add: dec_not_Nil)
    qed
  next
    case False
    then have dn: "dec n = dec (n div 10) @ [digit (n mod 10)]" by (subst dec.simps) simp
    show ?thesis
    proof (cases "m < 10")
      case True
      then have "dec m = [digit m]" by (subst dec.simps) simp
      with dn "1.prems" show ?thesis by (simp add: dec_not_Nil)
    next
      case m: False
      then have dm: "dec m = dec (m div 10) @ [digit (m mod 10)]" by (subst dec.simps) simp
      from dn dm "1.prems" have a: "dec (n div 10) = dec (m div 10)"
        and b: "digit (n mod 10) = digit (m mod 10)" by simp_all
      from "1.IH"[OF False a] have "n div 10 = m div 10" .
      moreover from b have "n mod 10 = m mod 10" by (rule digit_inj[rotated 2]) simp_all
      ultimately show ?thesis by (metis div_mult_mod_eq)
    qed
  qed
qed

lemma dec_no_us: "CHR ''_'' \<notin> set (dec n)"
proof (induction n rule: dec.induct)
  case (1 n)
  show ?case
    by (subst dec.simps) (use 1 in \<open>auto simp: digit_not_us\<close>)
qed

lemma split_at_us:
  assumes "CHR ''_'' \<notin> set a" "CHR ''_'' \<notin> set c" "a @ CHR ''_'' # b = c @ CHR ''_'' # e"
  shows "a = c \<and> b = e"
  using assms
proof (induction a arbitrary: c)
  case Nil
  then show ?case by (cases c) auto
next
  case (Cons x a)
  then show ?case by (cases c) auto
qed

lemma synth_id_inj:
  "synth_id E j = synth_id E k \<Longrightarrow> Date_now E j = Date_now E k \<and> random_suffix E j = random_suffix E k"
  unfolding synth_id_def
proof -
  assume "''f_'' @ dec (Date_now E j) @ ''_'' @ dec (random_suffix E j) =
          ''f_'' @ dec (Date_now E k) @ ''_'' @ dec (random_suffix E k)"
  then have "dec (Date_now E j) @ CHR ''_'' # dec (random_suffix E j) =
             dec (Date_now E k) @ CHR ''_'' # dec (random_suffix E k)" by simp
  from split_at_us[OF dec_no_us dec_no_us this]
  show ?thesis by (simp add: dec_inj)
qed

lemma dec_stamp: "dec 1700000000000 = ''1700000000000''" "dec 1700000000001 = ''1700000000001''"
  "dec 4242 = ''4242''" "dec (Suc 0) = ''1''" "dec 2 = ''2''"
  by (simp_all add: dec.simps digit_def)

section \<open>The loops over features\<close>

lemma field_assign: "field (assign f k v) k = v"
  by (induction f) (auto simp: field_def)

lemma list_widget_add:
  "draw_add (list_widget accepts hat) d (JObj f) =
     (if \<not> accepts f then Inl DrawError else Inr (insert_obj hat d f))"
  by (simp add: list_widget_def)

lemma assign_same: "map_of kvs k = Some v \<Longrightarrow> assign kvs k v = kvs"
  by (induction kvs) (auto split: if_splits)

lemma length_with_ids: "length (with_ids E k fs) = length fs"
  by (induction fs arbitrary: k) simp_all

lemma add_features_objs:
  "add_features W E (map JObj fs) d k =
     (None, map JObj (with_ids E k fs), add_swallow W (with_ids E k fs) d,
      k + length (filter lacks_id fs))"
proof (induction fs arbitrary: d k)
  case Nil
  show ?case by simp
next
  case (Cons f fs)
  show ?case
    by (cases "lacks_id f") (simp_all add: Cons.IH lacks_id_def)
qed

lemma assigned_ids_with_ids:
  "assigned_ids fs (with_ids E k fs) =
     map (\<lambda>a. JStr (synth_id E a)) [k ..< k + length (filter lacks_id fs)]"
proof (induction fs arbitrary: k)
  case Nil
  show ?case by (simp add: assigned_ids_def)
next
  case (Cons f fs)
  have step: "assigned_ids (f # fs) (g # gs) =
      (if lacks_id f then ident g # assigned_ids fs gs else assigned_ids fs gs)" for g gs
    by (simp add: assigned_ids_def)
  show ?case
  proof (cases "lacks_id f")
    case True
    then show ?thesis
      by (simp add: step Cons.IH ident_def field_assign upt_conv_Cons del: upt_Suc)
  next
    case False
    then show ?thesis by (simp add: step Cons.IH)
  qed
qed

lemma with_ids_all_identified: "list_all (\<lambda>g. \<not> lacks_id g) (with_ids E k fs)"
  by (induction fs arbitrary: k) (simp_all add: lacks_id_def field_assign)

section \<open>Synthesized identifiers in a batch\<close>

lemma synth_ids_distinct:
  assumes "inj_on (\<lambda>a. (Date_now E a, random_suffix E a)) {k ..< k + n}"
  shows "distinct (map (\<lambda>a. JStr (synth_id E a)) [k ..< k + n])"
proof -
  have "inj_on (\<lambda>a. JStr (synth_id E a)) (set [k ..< k + n])"
  proof (rule inj_onI)
    fix a b
    assume a: "a \<in> set [k ..< k + n]" and b: "b \<in> set [k ..< k + n]"
      and eq: "JStr (synth_id E a) = JStr (synth_id E b)"
    from eq have "synth_id E a = synth_id E b" by simp
    then have "Date_now E a = Date_now E b \<and> random_suffix E a = random_suffix E b"
      by (rule synth_id_inj)
    then have "(Date_now E a, random_suffix E a) = (Date_now E b, random_suffix E b)"
      by simp
    with assms a b show "a = b" by (auto dest: inj_onD)
  qed
  then show ?thesis by (simp add: distinct_map)
qed

text \<open>
  C2, as amended: in the loop over a batch of response features, every feature whose
  \<^verbatim>\<open>id\<close> is \<^verbatim>\<open>undefined\<close> or \<^verbatim>\<open>null\<close> is given the identifier
  \<^verbatim>\<open>f_\<close>, the value of \<^verbatim>\<open>Date.now()\<close>, \<^verbatim>\<open>_\<close>, the random suffix, as read at its
  turn, so that no feature of the batch lacks an identifier afterwards. The
  identifiers given in one batch are pairwise distinct provided no two of these turns
  read the same pair of time and suffix.
\<close>

theorem synthesized_ids:
  "add_features W E (map JObj fs) d k =
     (None, map JObj (with_ids E k fs), add_swallow W (with_ids E k fs) d,
      k + length (filter lacks_id fs))
   \<and> list_all (\<lambda>g. \<not> lacks_id g) (with_ids E k fs)
   \<and> assigned_ids fs (with_ids E k fs) =
       map (\<lambda>a. JStr (synth_id E a)) [k ..< k + length (filter lacks_id fs)]
   \<and> (inj_on (\<lambda>a. (Date_now E a, random_suffix E a)) {k ..< k + length (filter lacks_id fs)} \<longrightarrow>
       distinct (assigned_ids fs (with_ids E k fs)))"
  by (simp add: add_features_objs with_ids_all_identified assigned_ids_with_ids synth_ids_distinct)

theorem synthesized_ids_witness:
  "add_features any_widget (world_of Rejected ticking) [JObj road, JObj park, JObj lake] no_features 0 =
     (None,
      [JObj (assign road ''id'' (JStr ''f_1700000000000_4242'')), JObj park,
       JObj (assign lake ''id'' (JStr ''f_1700000000001_4242''))],
      \<lparr>feats = [assign road ''id'' (JStr ''f_1700000000000_4242''), park,
                assign lake ''id'' (JStr ''f_1700000000001_4242'')], hats = 0\<rparr>,
      2)
   \<and> distinct [JStr ''f_1700000000000_4242'', JStr ''f_1700000000001_4242'']"
proof -
  let ?E = "world_of Rejected ticking"
  have l: "lacks_id road" "\<not> lacks_id park" "lacks_id lake"
    by (simp_all add: lacks_id_def field_def road_def park_def lake_def)
  have s: "synth_id ?E 0 = ''f_1700000000000_4242''" "synth_id ?E (Suc 0) = ''f_1700000000001_4242''"
    by (simp_all add: synth_id_def world_of_def ticking_def dec_stamp)
  have w: "with_ids ?E 0 [road, park, lake] =
             [assign road ''id'' (JStr ''f_1700000000000_4242''), park,
              assign lake ''id'' (JStr ''f_1700000000001_4242'')]"
    by (simp add: l s)
  have a: "add_swallow any_widget
             [assign road ''id'' (JStr ''f_1700000000000_4242''), park,
              assign lake ''id'' (JStr ''f_1700000000001_4242'')] no_features =
           \<lparr>feats = [assign road ''id'' (JStr ''f_1700000000000_4242''), park,
                assign lake ''id'' (JStr ''f_1700000000001_4242'')], hats = 0\<rparr>"
    by (simp add: list_widget_add insert_obj_def any_widget_def no_features_def field_def
        road_def park_def lake_def)
  have i: "inj_on (\<lambda>a. (Date_now ?E a, random_suffix ?E a)) {0 ..< 0 + length (filter lacks_id [road, park, lake])}"
    by (simp add: inj_on_def world_of_def ticking_def)
  have n: "0 + length (filter lacks_id [road, park, lake]) = 2"
    by (simp add: l)
  have ai: "assigned_ids [road, park, lake]
              [assign road ''id'' (JStr ''f_1700000000000_4242''), park,
               assign lake ''id'' (JStr ''f_1700000000001_4242'')] =
            [JStr ''f_1700000000000_4242'', JStr ''f_1700000000001_4242'']"
    by (simp add: assigned_ids_def l ident_def field_assign)
  from synthesized_ids[of any_widget ?E "[road, park, lake]" no_features 0] i
  have 1: "add_features any_widget ?E (map JObj [road, park, lake]) no_features 0 =
     (None, map JObj (with_ids ?E 0 [road, park, lake]),
      add_swallow any_widget (with_ids ?E 0 [road, park, lake]) no_features,
      0 + length (filter lacks_id [road, park, lake]))"
    and 2: "distinct (assigned_ids [road, park, lake] (with_ids ?E 0 [road, park, lake]))"
    by blast+
  from 1 have "add_features any_widget ?E [JObj road, JObj park, JObj lake] no_features 0 =
     (None,
      [JObj (assign road ''id'' (JStr ''f_1700000000000_4242'')), JObj park,
       JObj (assign lake ''id'' (JStr ''f_1700000000001_4242''))],
      \<lparr>feats = [assign road ''id'' (JStr ''f_1700000000000_4242''), park,
                assign lake ''id'' (JStr ''f_1700000000001_4242'')], hats = 0\<rparr>,
      2)"
    by (simp only: w a n list.map)
  moreover from 2 have "distinct [JStr ''f_1700000000000_4242'', JStr ''f_1700000000001_4242'']"
    by (simp only: w ai)
  ultimately show ?thesis by (intro conjI)
qed

text \<open>
  C2 as stated fails: two features without identifier that are handled within the same
  millisecond and draw the same suffix are given the same identifier, and the widget
  then holds the second one only.
\<close>

theorem synthesized_ids_collide:
  "add_features any_widget (world_of Rejected frozen) [JObj road, JObj lake] no_features 0 =
     (None,
      [JObj (assign road ''id'' (JStr ''f_1700000000000_4242'')),
       JObj (assign lake ''id'' (JStr ''f_1700000000000_4242''))],
      \<lparr>feats = [assign lake ''id'' (JStr ''f_1700000000000_4242'')], hats = 0\<rparr>,
      2)
   \<and> \<not> distinct (assigned_ids [road, lake]
         [assign road ''id'' (JStr ''f_1700000000000_4242''),
          assign lake ''id'' (JStr ''f_1700000000000_4242'')])"
proof -
  let ?E = "world_of Rejected frozen"
  have l: "lacks_id road" "lacks_id lake"
    by (simp_all add: lacks_id_def field_def road_def lake_def)
  have s: "synth_id ?E k = ''f_1700000000000_4242''" for k
    by (simp add: synth_id_def world_of_def frozen_def dec_stamp)
  have w: "with_ids ?E 0 [road, lake] =
             [assign road ''id'' (JStr ''f_1700000000000_4242''),
              assign lake ''id'' (JStr ''f_1700000000000_4242'')]"
    by (simp add: l s)
  have a: "add_swallow any_widget
             [assign road ''id'' (JStr ''f_1700000000000_4242''),
              assign lake ''id'' (JStr ''f_1700000000000_4242'')] no_features =
           \<lparr>feats = [assign lake ''id'' (JStr ''f_1700000000000_4242'')], hats = 0\<rparr>"
    by (simp add: list_widget_add insert_obj_def any_widget_def no_features_def field_assign)
  have n: "0 + length (filter lacks_id [road, lake]) = 2"
    by (simp add: l)
  have "add_features any_widget ?E (map JObj [road, lake]) no_features 0 =
     (None, map JObj (with_ids ?E 0 [road, lake]),
      add_swallow any_widget (with_ids ?E 0 [road, lake]) no_features,
      0 + length (filter lacks_id [road, lake]))"
    by (rule add_features_objs)
  then have "add_features any_widget ?E [JObj road, JObj lake] no_features 0 =
     (None,
      [JObj (assign road ''id'' (JStr ''f_1700000000000_4242'')),
       JObj (assign lake ''id'' (JStr ''f_1700000000000_4242''))],
      \<lparr>feats = [assign lake ''id'' (JStr ''f_1700000000000_4242'')], hats = 0\<rparr>,
      2)"
    by (simp only: w a n list.map)
  moreover have "\<not> distinct (assigned_ids [road, lake]
         [assign road ''id'' (JStr ''f_1700000000000_4242''),
          assign lake ''id'' (JStr ''f_1700000000000_4242'')])"
    by (simp add: assigned_ids_def l ident_def field_assign)
  ultimately show ?thesis by (intro conjI)
qed

section \<open>A successful viewport sync\<close>

lemma with_features_same:
  assumes "get_prop fc ''features'' = Inr (JArr xs)"
  shows "with_features fc xs = fc"
proof (cases fc)
  case (JObj kvs)
  with assms have "field kvs ''features'' = JArr xs" by simp
  then have "map_of kvs ''features'' = Some (JArr xs)"
    by (auto simp: field_def split: option.splits)
  then show ?thesis
    using JObj by (simp add: with_features_def assign_same)
qed (simp_all add: with_features_def)

lemma get_prop_with_features:
  assumes "get_prop fc ''features'' = Inr (JArr xs)"
  shows "get_prop (with_features fc ys) ''features'' = Inr (JArr ys)"
proof (cases fc)
  case (JObj kvs)
  then show ?thesis by (simp add: with_features_def field_assign)
qed (use assms in \<open>simp_all split: if_splits\<close>)

lemma sync_draw_objs:
  assumes "drawRef st = Some d"
    and "get_prop fc ''features'' = Inr (JArr (map JObj fs))"
  shows "sync_draw W E fc st =
           (None, with_features fc (map JObj (with_ids E (ticks st) fs)),
            st\<lparr>drawRef := Some (add_swallow W (with_ids E (ticks st) fs) (d\<lparr>feats := []\<rparr>)),
               ticks := ticks st + length (filter lacks_id fs)\<rparr>)"
proof (cases fs)
  case Nil
  then show ?thesis
    using assms with_features_same[OF assms(2)]
    by (simp add: sync_draw_def delete_each_all)
next
  case (Cons f fs')
  then have "truthy (JNum (int (length (map JObj fs))))"
    by simp
  then show ?thesis
    using assms by (simp add: sync_draw_def delete_each_all add_features_objs)
qed

lemma fetch_ok_objs:
  assumes "mapRef st = Some m" and "source m = Some old" and "drawRef st = Some d"
    and "fetch E (length (sent st)) (features_request m) = Resolved res"
    and "ok res" and "json res = Some fc"
    and "get_prop fc ''features'' = Inr (JArr (map JObj fs))"
  shows "fetchFeaturesForView W E st =
           st\<lparr>status := ''Loaded '' @ dec (length fs) @ '' features'',
              sent := sent st @ [features_request m],
              mapRef := Some (m\<lparr>source :=
                          Some (with_features fc (map JObj (with_ids E (ticks st) fs)))\<rparr>),
              drawRef := Some (add_swallow W (with_ids E (ticks st) fs) (d\<lparr>feats := []\<rparr>)),
              ticks := ticks st + length (filter lacks_id fs)\<rparr>"
proof -
  let ?st2 = "st\<lparr>status := ''Loading features for viewport...'',
                 sent := sent st @ [features_request m],
                 mapRef := Some (m\<lparr>source := Some fc\<rparr>)\<rparr>"
  let ?fc' = "with_features fc (map JObj (with_ids E (ticks st) fs))"
  have "sync_draw W E fc ?st2 =
          (None, with_features fc (map JObj (with_ids E (ticks ?st2) fs)),
           ?st2\<lparr>drawRef := Some (add_swallow W (with_ids E (ticks ?st2) fs) (d\<lparr>feats := []\<rparr>)),
                 ticks := ticks ?st2 + length (filter lacks_id fs)\<rparr>)"
    using assms(3,7) by (intro sync_draw_objs) simp_all
  moreover have "loaded_status ?fc' = Inr (''Loaded '' @ dec (length fs) @ '' features'')"
    using get_prop_with_features[OF assms(7)]
    by (simp add: loaded_status_def length_with_ids)
  ultimately show ?thesis
    using assms(1,2,4,5,6)
    by (simp add: fetchFeaturesForView_def fetch_body_def)
qed

text \<open>
  C1, as amended: after an ok response whose body has an array of feature objects,
  the map's source holds the response with the synthesized identifiers written into
  its features; the widget has lost every feature it held, and \<^verbatim>\<open>add\<close> has been
  called, in order, on every response feature, a feature whose \<^verbatim>\<open>id\<close> was
  \<^verbatim>\<open>undefined\<close> or \<^verbatim>\<open>null\<close> carrying its synthesized identifier and every other
  feature as received; a call of \<^verbatim>\<open>add\<close> that throws is skipped. The status
  reports the number of response features.
\<close>

theorem sync_replaces_layers:
  assumes "mapRef st = Some m" and "source m = Some old" and "drawRef st = Some d"
    and "fetch E (length (sent st)) (features_request m) = Resolved res"
    and "ok res" and "json res = Some fc"
    and "get_prop fc ''features'' = Inr (JArr (map JObj fs))"
  shows "fetchFeaturesForView W E st =
           st\<lparr>status := ''Loaded '' @ dec (length fs) @ '' features'',
              sent := sent st @ [features_request m],
              mapRef := Some (m\<lparr>source :=
                          Some (with_features fc (map JObj (with_ids E (ticks st) fs)))\<rparr>),
              drawRef := Some (add_swallow W (with_ids E (ticks st) fs) (d\<lparr>feats := []\<rparr>)),
              ticks := ticks st + length (filter lacks_id fs)\<rparr>"
  using assms by (rule fetch_ok_objs)

theorem sync_replaces_layers_witness:
  "fetchFeaturesForView any_widget
      (world_of (answer_200 (FeatureCollection [JObj road, JObj park])) ticking) viewing =
     viewing\<lparr>status := ''Loaded 2 features'',
             sent := [features_request city],
             mapRef := Some (city\<lparr>source := Some (FeatureCollection
                 [JObj (assign road ''id'' (JStr ''f_1700000000000_4242'')), JObj park])\<rparr>),
             drawRef := Some \<lparr>feats = [assign road ''id'' (JStr ''f_1700000000000_4242''), park],
                               hats = 0\<rparr>,
             ticks := 1\<rparr>"
proof -
  let ?fc = "FeatureCollection [JObj road, JObj park]"
  let ?E = "world_of (answer_200 ?fc) ticking"
  let ?road = "assign road ''id'' (JStr ''f_1700000000000_4242'')"
  have m: "mapRef viewing = Some city" and d: "drawRef viewing = Some one_park"
    and t: "ticks viewing = 0" and sn: "sent viewing = []"
    by (simp_all add: viewing_def)
  have s: "source city = Some (FeatureCollection [JObj park])" by (simp add: city_def)
  have f: "fetch ?E (length (sent viewing)) (features_request city) =
             Resolved \<lparr>ok = True, http_status = 200, json = Some ?fc\<rparr>"
    by (simp add: world_of_def answer_200_def)
  have g: "get_prop ?fc ''features'' = Inr (JArr (map JObj [road, park]))"
    by (simp add: FeatureCollection_def field_def)
  have l: "lacks_id road" "\<not> lacks_id park"
    by (simp_all add: lacks_id_def field_def road_def park_def)
  have sy: "synth_id ?E 0 = ''f_1700000000000_4242''"
    by (simp add: synth_id_def world_of_def ticking_def dec_stamp)
  have w: "with_ids ?E (ticks viewing) [road, park] = [?road, park]"
    by (simp add: t l sy)
  have i: "field ?road ''id'' = JStr ''f_1700000000000_4242''" "field park ''id'' = JStr ''park''"
    by (simp_all add: field_assign) (simp add: field_def park_def)
  have a: "add_swallow any_widget [?road, park] (one_park\<lparr>feats := []\<rparr>) =
             \<lparr>feats = [?road, park], hats = 0\<rparr>"
    by (simp add: list_widget_add insert_obj_def any_widget_def one_park_def i)
  have wf: "with_features ?fc (map JObj [?road, park]) = FeatureCollection [JObj ?road, JObj park]"
    by (simp add: with_features_def FeatureCollection_def)
  have "length [road, park] = 2"
    by simp
  then have n2: "dec (length [road, park]) = ''2''"
    by (simp only: dec_stamp)
  have n1: "ticks viewing + length (filter lacks_id [road, park]) = 1"
    by (simp add: t l)
  from sync_replaces_layers[OF m s d f _ _ g, of any_widget, unfolded w a wf n1 n2]
  show ?thesis by (simp add: sn)
qed

text \<open>
  C1 as stated fails: \<^verbatim>\<open>try { draw.add(f); } catch (e) {}\<close> skips a feature on which
  the widget throws. For a response of one unlocated feature and a widget that throws
  on such a feature, the sync succeeds, the source shows the feature and the widget
  holds nothing.
\<close>

theorem rejected_feature_is_skipped:
  "fetchFeaturesForView located_widget
      (world_of (answer_200 (FeatureCollection [JObj unlocated])) ticking) viewing =
     viewing\<lparr>status := ''Loaded 1 features'',
             sent := [features_request city],
             mapRef := Some (city\<lparr>source := Some (FeatureCollection [JObj unlocated])\<rparr>),
             drawRef := Some no_features\<rparr>"
proof -
  let ?fc = "FeatureCollection [JObj unlocated]"
  let ?E = "world_of (answer_200 ?fc) ticking"
  have m: "mapRef viewing = Some city" and d: "drawRef viewing = Some one_park"
    and t: "ticks viewing = 0" and sn: "sent viewing = []"
    by (simp_all add: viewing_def)
  have s: "source city = Some (FeatureCollection [JObj park])" by (simp add: city_def)
  have f: "fetch ?E (length (sent viewing)) (features_request city) =
             Resolved \<lparr>ok = True, http_status = 200, json = Some ?fc\<rparr>"
    by (simp add: world_of_def answer_200_def)
  have g: "get_prop ?fc ''features'' = Inr (JArr (map JObj [unlocated]))"
    by (simp add: FeatureCollection_def field_def)
  have l: "\<not> lacks_id unlocated"
    by (simp add: lacks_id_def field_def unlocated_def)
  have w: "with_ids ?E (ticks viewing) [unlocated] = [unlocated]"
    by (simp add: l)
  have a: "add_swallow located_widget [unlocated] (one_park\<lparr>feats := []\<rparr>) = no_features"
    by (simp add: list_widget_add located_widget_def field_def unlocated_def one_park_def
        no_features_def)
  have wf: "with_features ?fc (map JObj [unlocated]) = ?fc"
    by (simp add: with_features_def FeatureCollection_def)
  have n1: "ticks viewing + length (filter lacks_id [unlocated]) = ticks viewing"
    by (simp add: l)
  have "length [unlocated] = Suc 0"
    by simp
  then have n2: "dec (length [unlocated]) = ''1''"
    by (simp only: dec_stamp)
  from fetch_ok_objs[OF m s d f _ _ g, of located_widget, unfolded w a wf n1 n2]
  show ?thesis by (simp add: sn)
qed

section \<open>Import\<close>




end
